theory Spec2Isabelle
  imports Main "HOL-Library.Sublist"
begin

section \<open>The boot stub of Nyx: \<open>Source/Kernel/boot.cpp\<close>\<close>

text \<open>
  The whole program is one function:
  \<^verbatim>\<open>
  int main() {
      printf("Hello from Nyx OS!\n");
      Py_Initialize();
      PyRun_SimpleString("print('Hello from Embedded Python')");
      PyRun_SimpleString("import sys\nprint(sys.version)");
      Py_Finalize();
      return 0;
  }
  \<close>
  It calls four library functions. \<open>printf\<close> belongs to the C library; the other three
  belong to the embedded scripting runtime, which is not part of the repository. The
  runtime is therefore a parameter of the model: three opaque functions over an opaque
  interpreter state. Every library call is a total function here, so the model describes
  the runs in which each library call returns to \<open>main\<close>. What \<open>printf\<close> passes to
  the C stream and what reaches standard output are kept apart: the stream buffers, the
  runtime writes through buffers of its own, and the descriptor may reject writes.
\<close>

subsection \<open>Library calls and what they leave behind\<close>

text \<open>The library calls \<open>main\<close> can issue, with their arguments.\<close>

datatype call =
    Printf string
  | Initialize
  | RunString string
  | Finalize

text \<open>
  One entry of the run's log: the call, the text that call passed on for standard output
  (to the C stream for \<open>printf\<close>, to the descriptor for the runtime), and the value it
  returned to the caller (\<open>None\<close> for a \<open>void\<close> function).
\<close>

record event =
  ev_call :: call
  ev_text :: string
  ev_result :: "int option"

text \<open>
  What the process is started with: command line, environment, the content of standard
  input, and the standard output it is attached to (an interactive device or not;
  accepting writes or rejecting them, as a closed descriptor or a full device does).
  \<open>int main()\<close> declares no parameter for any of it.
\<close>

record input =
  argv :: "string list"
  environ :: "(string \<times> string) list"
  stdin :: string
  stdout_tty :: bool
  stdout_accepts :: bool

text \<open>The buffering of a C stream: \<open>_IONBF\<close>, \<open>_IOLBF\<close>, \<open>_IOFBF\<close>.\<close>

datatype buffering = Unbuffered | LineBuffered | FullyBuffered

text \<open>
  The state a run threads through its library calls: the input of the process (never
  written), the runtime's own singleton state, the log of library calls so far, and
  standard output. Standard output has two parts: the C stream, with its buffering mode
  and the text \<open>pending\<close> in its buffer, and the text \<open>stdout\<close> that has reached the
  descriptor, which is what an observer of the process sees.
\<close>

record 'i world =
  input :: input
  interp :: 'i
  trace :: "event list"
  mode :: buffering
  pending :: string
  stdout :: string

text \<open>
  The embedded runtime: initialize-runtime, execute-source-string, finalize-runtime. Each
  may read the input of the process and its own state, and yields the text it writes to
  the descriptor of standard output during the call (it has buffers of its own and does
  not go through the C stream) and its new state; execute-source-string also yields a
  status (\<open>0\<close> for success, \<open>-1\<close> when the statement raised).
\<close>

record 'i runtime =
  initialize_runtime :: "input \<Rightarrow> 'i \<Rightarrow> string \<times> 'i"
  execute_source_string :: "input \<Rightarrow> string \<Rightarrow> 'i \<Rightarrow> int \<times> string \<times> 'i"
  finalize_runtime :: "input \<Rightarrow> 'i \<Rightarrow> string \<times> 'i"

definition log_event :: "call \<Rightarrow> string \<Rightarrow> int option \<Rightarrow> 'i world \<Rightarrow> 'i world" where
  "log_event c out r w =
     w\<lparr>trace := trace w @ [\<lparr>ev_call = c, ev_text = out, ev_result = r\<rparr>]\<rparr>"

text \<open>
  A write to the descriptor of standard output: the text arrives if the descriptor
  accepts writes, and is lost otherwise. The flag tells whether it arrived.
\<close>

definition write_out :: "string \<Rightarrow> 'i world \<Rightarrow> bool \<times> 'i world" where
  "write_out text w =
     (if stdout_accepts (input w) then (True, w\<lparr>stdout := stdout w @ text\<rparr>)
      else (False, w))"

text \<open>
  The C stream hands the first \<open>n\<close> characters of its buffer to the descriptor. They
  leave the buffer whether or not the write succeeds.
\<close>

definition flush :: "nat \<Rightarrow> 'i world \<Rightarrow> bool \<times> 'i world" where
  "flush n w =
     (if n = 0 then (True, w)
      else (let (ok, w') = write_out (take n (pending w)) w
            in (ok, w'\<lparr>pending := drop n (pending w)\<rparr>)))"

text \<open>The number of characters of a text up to and including its last newline.\<close>

definition through_last_newline :: "string \<Rightarrow> nat" where
  "through_last_newline s = length (dropWhile (\<lambda>c. c \<noteq> CHR 0x0A) (rev s))"

text \<open>
  \<open>printf\<close> with a format and no further argument. A format without a conversion
  specification is passed to the stream as it is (the only format of the program is of
  that kind, lemma \<open>greeting_plain\<close>). An unbuffered stream writes it at once, a line
  buffered stream writes what it holds up to the last newline, and a fully buffered
  stream keeps it: the program passes 19 characters in all, fewer than any stream buffer
  holds (\<open>BUFSIZ\<close> is at least 256), so the buffer does not fill. The call returns the
  number of characters, or a negative value when a write it attempted failed.
\<close>

definition printf :: "string \<Rightarrow> 'i world \<Rightarrow> int \<times> 'i world" where
  "printf format w =
     (let w1 = w\<lparr>pending := pending w @ format\<rparr>;
          (ok, w2) = (case mode w of
               Unbuffered \<Rightarrow> flush (length (pending w1)) w1
             | LineBuffered \<Rightarrow> flush (through_last_newline (pending w1)) w1
             | FullyBuffered \<Rightarrow> (True, w1));
          n = (if ok then int (length format) else - 1)
      in (n, log_event (Printf format) format (Some n) w2))"

definition Py_Initialize :: "'i runtime \<Rightarrow> 'i world \<Rightarrow> 'i world" where
  "Py_Initialize rt w =
     (let (out, i) = initialize_runtime rt (input w) (interp w);
          (_, w1) = write_out out (w\<lparr>interp := i\<rparr>)
      in log_event Initialize out None w1)"

definition PyRun_SimpleString :: "'i runtime \<Rightarrow> string \<Rightarrow> 'i world \<Rightarrow> int \<times> 'i world" where
  "PyRun_SimpleString rt command w =
     (let (status, out, i) = execute_source_string rt (input w) command (interp w);
          (_, w1) = write_out out (w\<lparr>interp := i\<rparr>)
      in (status, log_event (RunString command) out (Some status) w1))"

definition Py_Finalize :: "'i runtime \<Rightarrow> 'i world \<Rightarrow> 'i world" where
  "Py_Finalize rt w =
     (let (out, i) = finalize_runtime rt (input w) (interp w);
          (_, w1) = write_out out (w\<lparr>interp := i\<rparr>)
      in log_event Finalize out None w1)"

subsection \<open>The program\<close>

text \<open>
  \<open>main\<close>, statement by statement. The values returned by \<open>printf\<close> and by both
  \<open>PyRun_SimpleString\<close> calls are dropped, as in the source. The result is the exit
  status together with the world when \<open>main\<close> returns.
\<close>

definition main :: "'i runtime \<Rightarrow> 'i world \<Rightarrow> int \<times> 'i world" where
  "main rt w0 =
     (let (_, w1) = printf ''Hello from Nyx OS!\<newline>'' w0;
          w2 = Py_Initialize rt w1;
          (_, w3) = PyRun_SimpleString rt ''print('Hello from Embedded Python')'' w2;
          (_, w4) = PyRun_SimpleString rt ''import sys\<newline>print(sys.version)'' w3;
          w5 = Py_Finalize rt w4
      in (0, w5))"

text \<open>
  The process from start to exit. Returning from \<open>main\<close> is a call of \<open>exit\<close> with
  the value returned, and \<open>exit\<close> flushes the C stream before the process ends; a
  failure of that last write changes nothing in the status.
\<close>

definition run_to_exit :: "'i runtime \<Rightarrow> 'i world \<Rightarrow> int \<times> 'i world" where
  "run_to_exit rt w =
     (let (status, w1) = main rt w;
          (_, w2) = flush (length (pending w1)) w1
      in (status, w2))"

subsection \<open>Observations of one run\<close>

text \<open>The log entries a run adds to the log it started with.\<close>

definition events :: "'i runtime \<Rightarrow> 'i world \<Rightarrow> event list" where
  "events rt w = drop (length (trace w)) (trace (snd (main rt w)))"

text \<open>The library calls of a run, in order, with their arguments.\<close>

definition calls :: "'i runtime \<Rightarrow> 'i world \<Rightarrow> call list" where
  "calls rt w = map ev_call (events rt w)"

text \<open>The text that reaches standard output between the start of a run and its exit.\<close>

definition written :: "'i runtime \<Rightarrow> 'i world \<Rightarrow> string" where
  "written rt w = drop (length (stdout w)) (stdout (snd (run_to_exit rt w)))"

text \<open>The exit status of a run.\<close>

definition exit_status :: "'i runtime \<Rightarrow> 'i world \<Rightarrow> int" where
  "exit_status rt w = fst (main rt w)"

text \<open>Which calls go to the embedded runtime, and which of them use the interpreter.\<close>

fun runtime_call :: "call \<Rightarrow> bool" where
  "runtime_call (Printf _) = False"
| "runtime_call _ = True"

fun sources :: "call list \<Rightarrow> string list" where
  "sources [] = []"
| "sources (RunString s # cs) = s # sources cs"
| "sources (_ # cs) = sources cs"

text \<open>The source strings a run submits to the interpreter, in order.\<close>

definition submitted :: "'i runtime \<Rightarrow> 'i world \<Rightarrow> string list" where
  "submitted rt w = sources (calls rt w)"


text \<open>The values the library calls of a run returned, in order.\<close>

definition results :: "'i runtime \<Rightarrow> 'i world \<Rightarrow> int option list" where
  "results rt w = map ev_result (events rt w)"

text \<open>The text the calls to the embedded runtime write during a run, in order.\<close>

definition interpreter_output :: "'i runtime \<Rightarrow> 'i world \<Rightarrow> string" where
  "interpreter_output rt w =
     concat (map ev_text (filter (\<lambda>e. runtime_call (ev_call e)) (events rt w)))"

text \<open>
  The world in which the process starts: its input, the runtime's state before any call,
  nothing logged, nothing on standard output, and an empty C stream, line buffered when
  standard output is an interactive device and fully buffered otherwise.
\<close>

definition process_start :: "input \<Rightarrow> 'i \<Rightarrow> 'i world" where
  "process_start inp i =
     \<lparr>input = inp, interp = i, trace = [],
      mode = (if stdout_tty inp then LineBuffered else FullyBuffered),
      pending = [], stdout = []\<rparr>"

subsection \<open>Assumptions on the embedded runtime, and sample runtimes\<close>

text \<open>
  What the scripting language's \<open>print\<close> does for the two statements of the program,
  as a contract on the runtime parameter. \<open>ready\<close> holds of the interpreter states
  in which statements can be executed, \<open>held\<close> is the text an interpreter state keeps
  in the runtime's own buffer, and \<open>version\<close> is the runtime's version string.
  Initialization writes nothing and leaves a ready interpreter that holds nothing. In a
  ready interpreter the first statement adds its literal as a line, and the second adds
  the version string as a line, to what is written or held; both leave the interpreter
  ready. Finalization of a ready interpreter writes what is held.
\<close>

definition runs_python ::
  "'i runtime \<Rightarrow> ('i \<Rightarrow> bool) \<Rightarrow> ('i \<Rightarrow> string) \<Rightarrow> string \<Rightarrow> bool" where
  "runs_python rt ready held version \<longleftrightarrow>
     (\<forall>inp i. fst (initialize_runtime rt inp i) = [] \<and>
        ready (snd (initialize_runtime rt inp i)) \<and>
        held (snd (initialize_runtime rt inp i)) = []) \<and>
     (\<forall>inp i. ready i \<longrightarrow>
        fst (snd (execute_source_string rt inp ''print('Hello from Embedded Python')'' i)) @
        held (snd (snd
          (execute_source_string rt inp ''print('Hello from Embedded Python')'' i)))
          = held i @ ''Hello from Embedded Python\<newline>'' \<and>
        ready (snd (snd
          (execute_source_string rt inp ''print('Hello from Embedded Python')'' i)))) \<and>
     (\<forall>inp i. ready i \<longrightarrow>
        fst (snd (execute_source_string rt inp ''import sys\<newline>print(sys.version)'' i)) @
        held (snd (snd
          (execute_source_string rt inp ''import sys\<newline>print(sys.version)'' i)))
          = held i @ version @ ''\<newline>'' \<and>
        ready (snd (snd
          (execute_source_string rt inp ''import sys\<newline>print(sys.version)'' i)))) \<and>
     (\<forall>inp i. ready i \<longrightarrow> fst (finalize_runtime rt inp i) = held i)"

text \<open>
  A runtime that honours this contract and writes every line as soon as it is printed.
  Its state says whether it is initialized; a statement submitted to an interpreter that
  is not initialized, or a statement it does not know, fails with status \<open>-1\<close> and
  writes nothing.
\<close>

definition line_printer :: "string \<Rightarrow> bool runtime" where
  "line_printer version =
     \<lparr>initialize_runtime = (\<lambda>inp i. ([], True)),
      execute_source_string = (\<lambda>inp command i.
        if i \<and> command = ''print('Hello from Embedded Python')''
          then (0, ''Hello from Embedded Python\<newline>'', i)
        else if i \<and> command = ''import sys\<newline>print(sys.version)''
          then (0, version @ ''\<newline>'', i)
        else (- 1, [], i)),
      finalize_runtime = (\<lambda>inp i. ([], False))\<rparr>"


text \<open>
  A runtime that writes nothing and whose two executions return the statuses \<open>a\<close>
  (for the first statement of the program) and \<open>b\<close> (for any other statement).
\<close>

definition answering :: "int \<Rightarrow> int \<Rightarrow> unit runtime" where
  "answering a b =
     \<lparr>initialize_runtime = (\<lambda>inp i. ([], ())),
      execute_source_string = (\<lambda>inp command i.
        (if command = ''print('Hello from Embedded Python')'' then a else b, [], ())),
      finalize_runtime = (\<lambda>inp i. ([], ()))\<rparr>"

text \<open>
  A runtime that reads the environment of the process: at initialization it writes a
  line naming the module search path when the variable \<open>PYTHONPATH\<close> is set, as a
  site customization found on that path can.
\<close>

definition path_reader :: "unit runtime" where
  "path_reader =
     \<lparr>initialize_runtime = (\<lambda>inp i.
        (case map_of (environ inp) ''PYTHONPATH'' of
           None \<Rightarrow> []
         | Some p \<Rightarrow> ''site: '' @ p @ ''\<newline>'', ())),
      execute_source_string = (\<lambda>inp command i. (0, [], ())),
      finalize_runtime = (\<lambda>inp i. ([], ()))\<rparr>"

text \<open>
  Inputs of the process, for the examples: started on a terminal; the same with standard
  output redirected to a pipe or a file; the same with \<open>PYTHONPATH\<close> set; the same
  with standard output closed.
\<close>

definition sample_input :: input where
  "sample_input =
     \<lparr>argv = [''boot''], environ = [(''HOME'', ''/root'')], stdin = [],
      stdout_tty = True, stdout_accepts = True\<rparr>"


definition path_input :: input where
  "path_input = sample_input\<lparr>environ := [(''PYTHONPATH'', ''/opt/site'')]\<rparr>"


subsection \<open>One run, unfolded\<close>

text \<open>
  The interpreter states and texts of a run, named after the call that produces them.
\<close>

definition st_init :: "'i runtime \<Rightarrow> 'i world \<Rightarrow> string \<times> 'i" where
  "st_init rt w = initialize_runtime rt (input w) (interp w)"

definition st_run1 :: "'i runtime \<Rightarrow> 'i world \<Rightarrow> int \<times> string \<times> 'i" where
  "st_run1 rt w =
     execute_source_string rt (input w) ''print('Hello from Embedded Python')''
       (snd (st_init rt w))"

definition st_run2 :: "'i runtime \<Rightarrow> 'i world \<Rightarrow> int \<times> string \<times> 'i" where
  "st_run2 rt w =
     execute_source_string rt (input w) ''import sys\<newline>print(sys.version)''
       (snd (snd (st_run1 rt w)))"

definition st_fin :: "'i runtime \<Rightarrow> 'i world \<Rightarrow> string \<times> 'i" where
  "st_fin rt w = finalize_runtime rt (input w) (snd (snd (st_run2 rt w)))"

definition run_events :: "'i runtime \<Rightarrow> 'i world \<Rightarrow> event list" where
  "run_events rt w =
     [\<lparr>ev_call = Printf ''Hello from Nyx OS!\<newline>'',
       ev_text = ''Hello from Nyx OS!\<newline>'',
       ev_result = Some (fst (printf ''Hello from Nyx OS!\<newline>'' w))\<rparr>,
      \<lparr>ev_call = Initialize, ev_text = fst (st_init rt w), ev_result = None\<rparr>,
      \<lparr>ev_call = RunString ''print('Hello from Embedded Python')'',
       ev_text = fst (snd (st_run1 rt w)), ev_result = Some (fst (st_run1 rt w))\<rparr>,
      \<lparr>ev_call = RunString ''import sys\<newline>print(sys.version)'',
       ev_text = fst (snd (st_run2 rt w)), ev_result = Some (fst (st_run2 rt w))\<rparr>,
      \<lparr>ev_call = Finalize, ev_text = fst (st_fin rt w), ev_result = None\<rparr>]"

section \<open>What one run does\<close>

text \<open>The only format passed to \<open>printf\<close> has no conversion specification.\<close>

lemma greeting_plain: "CHR ''%'' \<notin> set ''Hello from Nyx OS!\<newline>''"
  by simp

text \<open>What the library calls leave unchanged, and what they add to the log.\<close>

lemma write_out_keeps [simp]:
  "input (snd (write_out t w)) = input w"
  "interp (snd (write_out t w)) = interp w"
  "trace (snd (write_out t w)) = trace w"
  "pending (snd (write_out t w)) = pending w"
  "mode (snd (write_out t w)) = mode w"
  by (simp_all add: write_out_def)

lemma flush_keeps [simp]:
  "input (snd (flush n w)) = input w"
  "interp (snd (flush n w)) = interp w"
  "trace (snd (flush n w)) = trace w"
  "mode (snd (flush n w)) = mode w"
  by (simp_all add: flush_def Let_def split_beta)

lemma printf_keeps [simp]:
  "input (snd (printf f w)) = input w"
  "interp (snd (printf f w)) = interp w"
  "mode (snd (printf f w)) = mode w"
  "trace (snd (printf f w)) =
     trace w @ [\<lparr>ev_call = Printf f, ev_text = f, ev_result = Some (fst (printf f w))\<rparr>]"
  by (simp_all add: printf_def log_event_def Let_def split_beta split: buffering.splits)

lemma Py_Initialize_does [simp]:
  "input (Py_Initialize rt w) = input w"
  "interp (Py_Initialize rt w) = snd (initialize_runtime rt (input w) (interp w))"
  "mode (Py_Initialize rt w) = mode w"
  "pending (Py_Initialize rt w) = pending w"
  "trace (Py_Initialize rt w) =
     trace w @ [\<lparr>ev_call = Initialize,
       ev_text = fst (initialize_runtime rt (input w) (interp w)), ev_result = None\<rparr>]"
  by (simp_all add: Py_Initialize_def log_event_def Let_def split_beta)

lemma PyRun_SimpleString_does [simp]:
  "input (snd (PyRun_SimpleString rt c w)) = input w"
  "interp (snd (PyRun_SimpleString rt c w)) =
     snd (snd (execute_source_string rt (input w) c (interp w)))"
  "mode (snd (PyRun_SimpleString rt c w)) = mode w"
  "pending (snd (PyRun_SimpleString rt c w)) = pending w"
  "trace (snd (PyRun_SimpleString rt c w)) =
     trace w @ [\<lparr>ev_call = RunString c,
       ev_text = fst (snd (execute_source_string rt (input w) c (interp w))),
       ev_result = Some (fst (execute_source_string rt (input w) c (interp w)))\<rparr>]"
  by (simp_all add: PyRun_SimpleString_def log_event_def Let_def split_beta)

lemma Py_Finalize_does [simp]:
  "input (Py_Finalize rt w) = input w"
  "interp (Py_Finalize rt w) = snd (finalize_runtime rt (input w) (interp w))"
  "mode (Py_Finalize rt w) = mode w"
  "pending (Py_Finalize rt w) = pending w"
  "trace (Py_Finalize rt w) =
     trace w @ [\<lparr>ev_call = Finalize,
       ev_text = fst (finalize_runtime rt (input w) (interp w)), ev_result = None\<rparr>]"
  by (simp_all add: Py_Finalize_def log_event_def Let_def split_beta)

text \<open>\<open>main\<close> in closed form: the exit status, the input, the log.\<close>

lemma main_status: "fst (main rt w) = 0"
  by (simp add: main_def Let_def split_beta)

lemma main_input: "input (snd (main rt w)) = input w"
  by (simp add: main_def Let_def split_beta)

lemma main_trace: "trace (snd (main rt w)) = trace w @ run_events rt w"
  by (simp add: main_def Let_def split_beta run_events_def st_init_def st_run1_def
      st_run2_def st_fin_def)

lemma events_unfolded: "events rt w = run_events rt w"
  by (simp add: events_def main_trace)

lemma calls_unfolded:
  "calls rt w =
     [Printf ''Hello from Nyx OS!\<newline>'', Initialize,
      RunString ''print('Hello from Embedded Python')'',
      RunString ''import sys\<newline>print(sys.version)'', Finalize]"
  by (simp add: calls_def events_unfolded run_events_def)

lemma results_unfolded:
  "results rt w =
     [Some (fst (printf ''Hello from Nyx OS!\<newline>'' w)), None,
      Some (fst (st_run1 rt w)), Some (fst (st_run2 rt w)), None]"
  by (simp add: results_def events_unfolded run_events_def)

lemma interpreter_output_unfolded:
  "interpreter_output rt w =
     fst (st_init rt w) @ fst (snd (st_run1 rt w)) @ fst (snd (st_run2 rt w)) @
       fst (st_fin rt w)"
  by (simp add: interpreter_output_def events_unfolded run_events_def)

text \<open>What reaches standard output, call by call, and at exit.\<close>

lemma greeting_lines: "through_last_newline ''Hello from Nyx OS!\<newline>'' = 19"
  by (simp add: through_last_newline_def)

lemma write_out_stdout:
  "stdout (snd (write_out t w)) = stdout w @ (if stdout_accepts (input w) then t else [])"
  by (simp add: write_out_def)

lemma flush_all_stdout:
  "stdout (snd (flush (length (pending w)) w)) =
     stdout w @ (if stdout_accepts (input w) then pending w else [])"
  by (simp add: flush_def write_out_def split_beta)

lemma Py_Initialize_stdout:
  "stdout (Py_Initialize rt w) =
     stdout w @ (if stdout_accepts (input w)
                 then fst (initialize_runtime rt (input w) (interp w)) else [])"
  by (simp add: Py_Initialize_def log_event_def write_out_def split_beta)

lemma PyRun_SimpleString_stdout:
  "stdout (snd (PyRun_SimpleString rt c w)) =
     stdout w @ (if stdout_accepts (input w)
                 then fst (snd (execute_source_string rt (input w) c (interp w))) else [])"
  by (simp add: PyRun_SimpleString_def log_event_def write_out_def split_beta)

lemma Py_Finalize_stdout:
  "stdout (Py_Finalize rt w) =
     stdout w @ (if stdout_accepts (input w)
                 then fst (finalize_runtime rt (input w) (interp w)) else [])"
  by (simp add: Py_Finalize_def log_event_def write_out_def split_beta)

lemma main_pending:
  "pending (snd (main rt w)) = pending (snd (printf ''Hello from Nyx OS!\<newline>'' w))"
  by (simp add: main_def Let_def split_beta)

lemma main_stdout:
  "stdout (snd (main rt w)) =
     stdout (snd (printf ''Hello from Nyx OS!\<newline>'' w)) @
       (if stdout_accepts (input w) then interpreter_output rt w else [])"
  by (simp add: main_def Let_def split_beta Py_Initialize_stdout PyRun_SimpleString_stdout
      Py_Finalize_stdout interpreter_output_unfolded st_init_def st_run1_def st_run2_def
      st_fin_def)

lemma run_to_exit_stdout:
  "stdout (snd (run_to_exit rt w)) =
     stdout (snd (main rt w)) @
       (if stdout_accepts (input w) then pending (snd (main rt w)) else [])"
  by (simp add: run_to_exit_def split_beta flush_all_stdout main_input)

lemma printf_at_start:
  "stdout (snd (printf ''Hello from Nyx OS!\<newline>'' (process_start inp i))) =
     (if stdout_tty inp \<and> stdout_accepts inp then ''Hello from Nyx OS!\<newline>'' else [])"
  "pending (snd (printf ''Hello from Nyx OS!\<newline>'' (process_start inp i))) =
     (if stdout_tty inp then [] else ''Hello from Nyx OS!\<newline>'')"
  by (simp_all add: printf_def process_start_def greeting_lines flush_def write_out_def
      log_event_def Let_def split_beta)

lemma stdout_at_exit:
  "stdout (snd (run_to_exit rt (process_start inp i))) =
     (if stdout_accepts inp
      then (if stdout_tty inp
            then ''Hello from Nyx OS!\<newline>'' @ interpreter_output rt (process_start inp i)
            else interpreter_output rt (process_start inp i) @ ''Hello from Nyx OS!\<newline>'')
      else [])"
proof -
  have "input (process_start inp i :: 'a world) = inp"
    by (simp add: process_start_def)
  then show ?thesis
    by (simp add: run_to_exit_stdout main_stdout main_pending printf_at_start)
qed


lemma process_start_input: "input (process_start inp i) = inp"
  by (simp add: process_start_def)

lemma written_at_start:
  "written rt (process_start inp i) = stdout (snd (run_to_exit rt (process_start inp i)))"
  by (simp add: written_def process_start_def)

text \<open>The interpreter's text under the contract, and for the sample runtimes.\<close>

lemma runs_python_output:
  assumes "runs_python rt ready held version"
  shows "interpreter_output rt w =
           ''Hello from Embedded Python\<newline>'' @ version @ ''\<newline>''"
proof -
  have init: "fst (st_init rt w) = []" and r0: "ready (snd (st_init rt w))"
    and h0: "held (snd (st_init rt w)) = []"
    using assms by (simp_all add: runs_python_def st_init_def)
  have run1: "fst (snd (st_run1 rt w)) @ held (snd (snd (st_run1 rt w))) =
      ''Hello from Embedded Python\<newline>''"
    and r1: "ready (snd (snd (st_run1 rt w)))"
    using assms r0 h0 by (simp_all add: runs_python_def st_run1_def)
  have run2: "fst (snd (st_run2 rt w)) @ held (snd (snd (st_run2 rt w))) =
      held (snd (snd (st_run1 rt w))) @ version @ ''\<newline>''"
    and r2: "ready (snd (snd (st_run2 rt w)))"
    using assms r1 by (simp_all add: runs_python_def st_run2_def)
  have fin: "fst (st_fin rt w) = held (snd (snd (st_run2 rt w)))"
    using assms r2 by (simp add: runs_python_def st_fin_def)
  have "interpreter_output rt w =
      fst (snd (st_run1 rt w)) @ (fst (snd (st_run2 rt w)) @ held (snd (snd (st_run2 rt w))))"
    by (simp add: interpreter_output_unfolded init fin)
  also have "\<dots> =
      (fst (snd (st_run1 rt w)) @ held (snd (snd (st_run1 rt w)))) @ version @ ''\<newline>''"
    by (simp only: run2 append_assoc)
  also have "\<dots> = ''Hello from Embedded Python\<newline>'' @ version @ ''\<newline>''"
    by (simp only: run1)
  finally show ?thesis .
qed

lemma line_printer_runs_python:
  "runs_python (line_printer version) (\<lambda>i. i) (\<lambda>i. []) version"
  by (simp add: runs_python_def line_printer_def)



lemma line_printer_output:
  "interpreter_output (line_printer ''3.12'') w =
     ''Hello from Embedded Python\<newline>3.12\<newline>''"
  using runs_python_output [OF line_printer_runs_python, of "''3.12''" w] by simp


lemma path_reader_output:
  "interpreter_output path_reader w =
     (case map_of (environ (input w)) ''PYTHONPATH'' of
        None \<Rightarrow> [] | Some p \<Rightarrow> ''site: '' @ p @ ''\<newline>'')"
  by (simp add: interpreter_output_unfolded st_init_def st_run1_def st_run2_def st_fin_def
      path_reader_def)

lemma printf_accepted:
  "stdout_accepts (input w) \<Longrightarrow> fst (printf f w) = int (length f)"
  by (simp add: printf_def flush_def write_out_def Let_def split_beta split: buffering.splits)

lemma printf_rejected:
  "\<not> stdout_accepts (input w) \<Longrightarrow> mode w = Unbuffered \<Longrightarrow> f \<noteq> [] \<Longrightarrow>
     fst (printf f w) = - 1"
  by (simp add: printf_def flush_def write_out_def Let_def split_beta)

section \<open>Properties of the boot sequence\<close>

text \<open>
  C2. Every run of \<open>main\<close> performs the same linear sequence of library effects, whatever
  the runtime and the world it starts in: it prints a string, initializes the
  interpreter, executes two fixed source strings, and finalizes the interpreter. These
  five calls are all a run adds to the log, and the input of the process is left as it
  was.
\<close>

theorem boot_sequence:
  "calls rt w =
     [Printf ''Hello from Nyx OS!\<newline>'', Initialize,
      RunString ''print('Hello from Embedded Python')'',
      RunString ''import sys\<newline>print(sys.version)'', Finalize]
   \<and> trace (snd (main rt w)) = trace w @ events rt w
   \<and> length (events rt w) = 5
   \<and> input (snd (main rt w)) = input w"
  by (simp add: calls_unfolded events_unfolded main_trace main_input run_events_def)

text \<open>
  C7. \<open>main\<close> terminates on every run: it is a straight-line sequence without loop or
  recursion, so, each library call returning (they are total functions of the model), it
  reaches \<open>return 0\<close> after exactly five library calls.
\<close>

theorem main_returns:
  "\<exists>w'. main rt w = (0, w') \<and> length (trace w') = length (trace w) + 5"
proof -
  have "main rt w = (0, snd (main rt w))"
    using main_status [of rt w] by (simp add: prod_eq_iff)
  moreover have "length (trace (snd (main rt w))) = length (trace w) + 5"
    by (simp add: main_trace run_events_def)
  ultimately show ?thesis
    by blast
qed

text \<open>
  C3. In every run the interpreter is initialized before it is used and finalized after:
  wherever a source string is submitted in the sequence of calls, \<open>Py_Initialize\<close>
  has been called before it, \<open>Py_Finalize\<close> has not been called before it, and
  \<open>Py_Finalize\<close> is called after it. So nothing is submitted before initialization
  or after finalization.
\<close>

theorem interpreter_used_between_initialize_and_finalize:
  "calls rt w = before @ RunString s # after \<Longrightarrow>
     Initialize \<in> set before \<and> Finalize \<notin> set before \<and> Finalize \<in> set after"
  by (auto simp add: calls_unfolded Cons_eq_append_conv)

theorem interpreter_used_between_initialize_and_finalize_witness:
  "calls (line_printer ''3.12'') (process_start sample_input False) =
     [Printf ''Hello from Nyx OS!\<newline>'', Initialize] @
       RunString ''print('Hello from Embedded Python')'' #
       [RunString ''import sys\<newline>print(sys.version)'', Finalize]
   \<and> Initialize \<in> set [Printf ''Hello from Nyx OS!\<newline>'', Initialize]
   \<and> Finalize \<notin> set [Printf ''Hello from Nyx OS!\<newline>'', Initialize]
   \<and> Finalize \<in> set [RunString ''import sys\<newline>print(sys.version)'', Finalize]"
proof -
  have c: "calls (line_printer ''3.12'') (process_start sample_input False) =
     [Printf ''Hello from Nyx OS!\<newline>'', Initialize] @
       RunString ''print('Hello from Embedded Python')'' #
       [RunString ''import sys\<newline>print(sys.version)'', Finalize]"
    by (simp add: calls_unfolded)
  from interpreter_used_between_initialize_and_finalize [OF c] c show ?thesis
    by blast
qed




text \<open>
  C4. No failure is told from success. Whatever the runtime, and so whatever its calls
  return, the exit status is \<open>0\<close> and the calls are those of a run under any other
  runtime. The statuses returned by the two executions can be any pair of integers
  \<open>a\<close>, \<open>b\<close>: the runtime \<open>answering a b\<close> returns them, the log records them,
  and nothing in the run depends on them. The value of \<open>printf\<close> is logged and dropped
  in the same way: the character count \<open>19\<close> where standard output accepts writes,
  and \<open>-1\<close> where an unbuffered stream meets a descriptor that rejects them.
\<close>

theorem results_are_ignored:
  "exit_status rt w = 0
   \<and> calls rt w = calls rt' w'
   \<and> results (answering a b) v =
       [Some (fst (printf ''Hello from Nyx OS!\<newline>'' v)), None, Some a, Some b, None]
   \<and> results (answering a b) (v\<lparr>input := (input v)\<lparr>stdout_accepts := True\<rparr>\<rparr>) =
       [Some 19, None, Some a, Some b, None]
   \<and> results (answering a b)
        (v\<lparr>input := (input v)\<lparr>stdout_accepts := False\<rparr>, mode := Unbuffered\<rparr>) =
       [Some (- 1), None, Some a, Some b, None]
   \<and> exit_status (answering a b) v = 0"
  by (simp add: exit_status_def main_status calls_unfolded results_unfolded
      st_init_def st_run1_def st_run2_def answering_def printf_accepted printf_rejected)

text \<open>
  C5. A run submits exactly two source strings to the interpreter, and they are the same
  in every run, whatever the runtime, its state and the input of the process.
\<close>

theorem two_fixed_statements:
  "length (submitted rt w) = 2 \<and> submitted rt w = submitted rt' w'"
  by (simp add: submitted_def calls_unfolded)

text \<open>
  C6. \<open>main\<close> is deterministic. With the runtime's calls the same functions, any two
  runs, in whatever worlds they start, issue the same calls with the same arguments and
  return the same exit status.
\<close>

theorem main_deterministic:
  "calls rt w = calls rt v \<and> exit_status rt w = exit_status rt v"
  by (simp add: calls_unfolded exit_status_def main_status)



text \<open>
  C9. The two statements are, in this order, \<open>print('Hello from Embedded Python')\<close>
  and the single source string made of the two lines \<open>import sys\<close> and
  \<open>print(sys.version)\<close> with one newline between them.
\<close>

theorem submitted_statements:
  "submitted rt w =
     [''print('Hello from Embedded Python')'', ''import sys\<newline>print(sys.version)'']
   \<and> submitted rt w ! 1 = ''import sys'' @ [CHR 0x0A] @ ''print(sys.version)''
   \<and> length (filter (\<lambda>c. c = CHR 0x0A) (submitted rt w ! 1)) = 1"
  by (simp add: submitted_def calls_unfolded)

text \<open>
  C10, as the claim states it, fails: what the process shows is not independent of its
  input, because the embedded runtime reads the environment. Under a runtime that reads
  \<open>PYTHONPATH\<close>, two runs that differ in that variable alone put different texts on
  standard output.
\<close>

theorem output_depends_on_environment:
  "written path_reader (process_start sample_input ()) = ''Hello from Nyx OS!\<newline>''
   \<and> written path_reader (process_start path_input ()) =
       ''Hello from Nyx OS!\<newline>site: /opt/site\<newline>''
   \<and> written path_reader (process_start sample_input ()) \<noteq>
       written path_reader (process_start path_input ())"
  by (simp add: written_at_start stdout_at_exit path_reader_output path_input_def
      sample_input_def process_start_input)

text \<open>
  C10, amended. \<open>main\<close> takes no parameter and reads no input itself: for any two
  inputs (command line, environment, standard input, the standard output the process is
  attached to), and any states of the runtime the process starts with, the sequence of
  calls with their arguments and the exit status are the same, and the run leaves the
  input untouched. The text on standard output and the values the runtime's calls return
  are the runtime's, and may depend on the input.
\<close>

theorem input_independence:
  "calls rt (process_start a i) = calls rt (process_start b j)
   \<and> exit_status rt (process_start a i) = exit_status rt (process_start b j)
   \<and> calls rt (w\<lparr>input := a\<rparr>) = calls rt (w\<lparr>input := b\<rparr>)
   \<and> exit_status rt (w\<lparr>input := a\<rparr>) = exit_status rt (w\<lparr>input := b\<rparr>)
   \<and> input (snd (main rt (process_start a i))) = a"
  by (simp add: calls_unfolded exit_status_def main_status main_input process_start_input)

end
